theory Spec2Isabelle
  imports Complex_Main "HOL-Library.AList"
begin

section \<open>Data model\<close>

text \<open>
  The two pydantic models of \<^verbatim>\<open>step1.py\<close>. A Python \<^verbatim>\<open>float\<close> is modelled as a
  \<open>real\<close>: rounding, infinities and NaN are outside the model. The only arithmetic the
  program performs on percentages is the sum check of the pipeline.
\<close>

record WasteComposition =
  composition_name :: string
  composition_percentage :: real

record WasteCompositionResponse =
  composition_dict :: "WasteComposition list"
  citation_dict :: "string list"

text \<open>
  What the retrieval call hands back, as far as the program reads it:
  \<^verbatim>\<open>response.output[1].content[0]\<close> with its \<^verbatim>\<open>text\<close> and \<^verbatim>\<open>annotations\<close>, each annotation
  with a \<^verbatim>\<open>url\<close>. An output item that is not a message has no \<^verbatim>\<open>content\<close>, and a content
  part that is a refusal has neither \<^verbatim>\<open>text\<close> nor \<^verbatim>\<open>annotations\<close>.
\<close>

record annotation =
  url :: string

datatype content_part = output_text string "annotation list" | refusal string

datatype output_item = web_search_call | message "content_part list"

record response =
  output_items :: "output_item list"

text \<open>The structured-extraction call returns an object whose \<^verbatim>\<open>output_parsed\<close> may be \<^verbatim>\<open>None\<close>.\<close>

record parsed_response =
  output_parsed :: "WasteCompositionResponse option"

text \<open>
  Exceptions (all subclasses of \<^verbatim>\<open>Exception\<close>). A provider error carries the provider's
  message; a validation error carries the names of the required fields that are absent.
\<close>

datatype py_exception =
    ProviderError string
  | IndexError
  | AttributeError
  | TypeError
  | ValidationError "string list"

text \<open>
  The provider client: the two calls the pipeline makes. The first is determined by the
  area (the rest of the prompt, the model name and the tool list are constants), the second
  by the retrieval text appended to the fixed extraction instruction.
\<close>

record client =
  responses_create :: "string \<Rightarrow> py_exception + response"
  responses_parse :: "string \<Rightarrow> py_exception + parsed_response"

text \<open>
  A Python \<^verbatim>\<open>dict\<close> keeps its keys in insertion order: an association list with distinct
  keys, where assignment replaces the value of a present key in place and appends an absent
  key (\<open>AList.update\<close>).
\<close>

type_synonym ('k, 'v) dict = "('k \<times> 'v) list"

record response_data =
  output_str :: string
  citations :: "string list"
  composition :: "(string, real) dict"

text \<open>
  The value \<^verbatim>\<open>get_waste_composition\<close> returns: the single-element list of line 144/147, or
  the model object the \<^verbatim>\<open>except\<close> branch tries to build.
\<close>

datatype pipeline_value = Payload "response_data list" | ErrorObject WasteCompositionResponse

text \<open>
  The two f-strings that interpolate \<^verbatim>\<open>str(e)\<close> outside the logger: the \<^verbatim>\<open>message\<close> keyword
  of line 153 and the \<^verbatim>\<open>detail\<close> of line 172. The text of \<^verbatim>\<open>str(e)\<close> belongs to the
  libraries that raise, so the exception itself stands for it.
\<close>

datatype formatted =
    Error_processing_request py_exception
  | Internal_server_error py_exception

text \<open>What a handler gives to the framework: a JSON response, or a raised \<^verbatim>\<open>HTTPException\<close>.\<close>

datatype http_result =
    JSONResponse nat "response_data list"
  | HTTPException nat formatted

section \<open>Effects: the log and the calls to the provider\<close>

datatype level = DEBUG | INFO | WARNING | ERROR

text \<open>
  One constructor per f-string handed to the logger, with the values it interpolates. The
  world records every call made to the logger, at whatever level the handlers are configured.
\<close>

datatype log_message =
    Processing_request string
  | Raw_response string
  | Extracted_citations nat string
  | Extracted_composition nat string
  | Total_not_100 real string
  | Successfully_processed_data string
  | Error_processing string py_exception
  | Received_request string
  | Successfully_processed_request string
  | Internal_error string py_exception
  | Health_check_requested

datatype provider_call = Create string | Parse string

record world =
  logged :: "(level \<times> log_message) list"
  calls :: "provider_call list"

definition logger :: "level \<Rightarrow> log_message \<Rightarrow> world \<Rightarrow> world" where
  "logger l m w = w\<lparr>logged := logged w @ [(l, m)]\<rparr>"

definition called :: "provider_call \<Rightarrow> world \<Rightarrow> world" where
  "called p w = w\<lparr>calls := calls w @ [p]\<rparr>"

section \<open>Library behaviour the program relies on\<close>

text \<open>Python list indexing with a non-negative index.\<close>

definition getitem :: "'a list \<Rightarrow> nat \<Rightarrow> py_exception + 'a" where
  "getitem xs i = (if i < length xs then Inr (xs ! i) else Inl IndexError)"

fun get_content :: "output_item \<Rightarrow> py_exception + content_part list" where
  "get_content (message cs) = Inr cs"
| "get_content web_search_call = Inl AttributeError"

fun get_text :: "content_part \<Rightarrow> py_exception + string" where
  "get_text (output_text t as) = Inr t"
| "get_text (refusal r) = Inl AttributeError"

fun get_annotations :: "content_part \<Rightarrow> py_exception + annotation list" where
  "get_annotations (output_text t as) = Inr as"
| "get_annotations (refusal r) = Inl AttributeError"

text \<open>\<^verbatim>\<open>response.output[1].content[0]\<close>\<close>

definition first_part :: "response \<Rightarrow> py_exception + content_part" where
  "first_part r =
     (case getitem (output_items r) 1 of
        Inl e \<Rightarrow> Inl e
      | Inr item \<Rightarrow>
          (case get_content item of
             Inl e \<Rightarrow> Inl e
           | Inr cs \<Rightarrow> getitem cs 0))"

text \<open>
  The keyword arguments of a call of the constructor \<^verbatim>\<open>WasteCompositionResponse(...)\<close>:
  the two declared fields, given or not, and any other keywords. Both fields are declared
  without a default, so the constructor raises a validation error naming each one that is
  absent; keywords that are not fields are ignored.
\<close>

record kwargs =
  composition_dict_arg :: "WasteComposition list option"
  citation_dict_arg :: "string list option"
  other_args :: "(string \<times> formatted) list"

definition missing_fields :: "kwargs \<Rightarrow> string list" where
  "missing_fields k =
     (if composition_dict_arg k = None then [''composition_dict''] else []) @
     (if citation_dict_arg k = None then [''citation_dict''] else [])"

definition WasteCompositionResponse_init :: "kwargs \<Rightarrow> py_exception + WasteCompositionResponse" where
  "WasteCompositionResponse_init k =
     (case (composition_dict_arg k, citation_dict_arg k) of
        (Some c, Some u) \<Rightarrow> Inr \<lparr>composition_dict = c, citation_dict = u\<rparr>
      | _ \<Rightarrow> Inl (ValidationError (missing_fields k)))"

text \<open>
  \<^verbatim>\<open>JSONResponse(status_code=..., content=...)\<close> renders its content with \<^verbatim>\<open>json.dumps\<close>
  in the constructor: a list of dictionaries renders, a model object is not serialisable.
\<close>

fun JSONResponse_init :: "nat \<Rightarrow> pipeline_value \<Rightarrow> py_exception + http_result" where
  "JSONResponse_init code (Payload body) = Inr (JSONResponse code body)"
| "JSONResponse_init code (ErrorObject obj) = Inl TypeError"

definition HTTP_200_OK :: nat where
  "HTTP_200_OK = 200"

definition HTTP_500_INTERNAL_SERVER_ERROR :: nat where
  "HTTP_500_INTERNAL_SERVER_ERROR = 500"

section \<open>The response normalizer (lines 123 to 147)\<close>

text \<open>Lines 123 to 126: the loop over \<^verbatim>\<open>range(len(annotations))\<close>, appending each \<^verbatim>\<open>url\<close>.\<close>

definition collect_citations :: "annotation list \<Rightarrow> string list" where
  "collect_citations anns =
     (if length anns > 0
      then fold (\<lambda>i dictionary_link. dictionary_link @ [url (anns ! i)]) [0..<length anns] []
      else [])"

text \<open>Lines 129 to 132: the loop over \<^verbatim>\<open>range(len(composition_dict))\<close>, assigning into the dict.\<close>

definition build_composition :: "WasteComposition list \<Rightarrow> (string, real) dict" where
  "build_composition entries =
     (if length entries > 0
      then fold (\<lambda>i dictionary_composition.
                   AList.update (composition_name (entries ! i))
                     (composition_percentage (entries ! i)) dictionary_composition)
             [0..<length entries] []
      else [])"

definition dict_values :: "('k, 'v) dict \<Rightarrow> 'v list" where
  "dict_values d = map snd d"

text \<open>Line 142: \<^verbatim>\<open>abs(total_percentage - 100.0) > 0.03\<close>\<close>

definition off_target :: "real \<Rightarrow> bool" where
  "off_target total_percentage \<longleftrightarrow> \<bar>total_percentage - 100\<bar> > 3 / 100"

text \<open>Lines 123 to 147, from the two provider results on.\<close>

definition normalize ::
  "string \<Rightarrow> string \<Rightarrow> annotation list \<Rightarrow> parsed_response \<Rightarrow> world
     \<Rightarrow> (py_exception + response_data list) \<times> world" where
  "normalize area structured_result anns response_formatted w0 =
     (let dictionary_link = collect_citations anns;
          w1 = (if length anns > 0
                then logger INFO (Extracted_citations (length dictionary_link) area) w0
                else w0)
      in case output_parsed response_formatted of
           None \<Rightarrow> (Inl AttributeError, w1)
         | Some parsed \<Rightarrow>
             (let dictionary_composition = build_composition (composition_dict parsed);
                  w2 = (if length (composition_dict parsed) > 0
                        then logger INFO
                               (Extracted_composition (length dictionary_composition) area) w1
                        else w1);
                  total_percentage = sum_list (dict_values dictionary_composition);
                  response_data = \<lparr>output_str = structured_result,
                                   citations = dictionary_link,
                                   composition = dictionary_composition\<rparr>
              in if off_target total_percentage
                 then (Inr [response_data],
                       logger WARNING (Total_not_100 total_percentage area) w2)
                 else (Inr [response_data],
                       logger INFO (Successfully_processed_data area) w2)))"

section \<open>The pipeline and the handlers\<close>

text \<open>The body of the \<^verbatim>\<open>try\<close> of \<^verbatim>\<open>get_waste_composition\<close> (lines 80 to 147).\<close>

definition pipeline_body ::
  "client \<Rightarrow> string \<Rightarrow> world \<Rightarrow> (py_exception + response_data list) \<times> world" where
  "pipeline_body c area w0 =
     (let w1 = called (Create area) w0
      in case responses_create c area of
           Inl e \<Rightarrow> (Inl e, w1)
         | Inr response \<Rightarrow>
             (case first_part response of
                Inl e \<Rightarrow> (Inl e, w1)
              | Inr part \<Rightarrow>
                  (case get_text part of
                     Inl e \<Rightarrow> (Inl e, w1)
                   | Inr structured_result \<Rightarrow>
                       (let w2 = logger DEBUG (Raw_response structured_result) w1;
                            w3 = called (Parse structured_result) w2
                        in case responses_parse c structured_result of
                             Inl e \<Rightarrow> (Inl e, w3)
                           | Inr response_formatted \<Rightarrow>
                               (case get_annotations part of
                                  Inl e \<Rightarrow> (Inl e, w3)
                                | Inr anns \<Rightarrow>
                                    normalize area structured_result anns
                                      response_formatted w3)))))"

text \<open>
  \<^verbatim>\<open>get_waste_composition\<close>: the body, and the \<^verbatim>\<open>except Exception\<close> branch of lines 149 to
  154, which logs the error and calls the constructor with \<^verbatim>\<open>citation_dict=[]\<close> and a
  \<^verbatim>\<open>message\<close> keyword.
\<close>

definition get_waste_composition ::
  "client \<Rightarrow> string \<Rightarrow> world \<Rightarrow> (py_exception + pipeline_value) \<times> world" where
  "get_waste_composition c area w0 =
     (let w1 = logger INFO (Processing_request area) w0
      in case pipeline_body c area w1 of
           (Inr result, w2) \<Rightarrow> (Inr (Payload result), w2)
         | (Inl e, w2) \<Rightarrow>
             (let w3 = logger ERROR (Error_processing area e) w2
              in case WasteCompositionResponse_init
                        \<lparr>composition_dict_arg = None,
                         citation_dict_arg = Some [],
                         other_args = [(''message'', Error_processing_request e)]\<rparr> of
                   Inl e' \<Rightarrow> (Inl e', w3)
                 | Inr obj \<Rightarrow> (Inr (ErrorObject obj), w3)))"

text \<open>\<^verbatim>\<open>waste_composition_endpoint\<close> (lines 156 to 173).\<close>

definition raise_500 :: "string \<Rightarrow> py_exception \<Rightarrow> world \<Rightarrow> http_result \<times> world" where
  "raise_500 area e w =
     (HTTPException HTTP_500_INTERNAL_SERVER_ERROR (Internal_server_error e),
      logger ERROR (Internal_error area e) w)"

definition waste_composition_endpoint :: "client \<Rightarrow> string \<Rightarrow> world \<Rightarrow> http_result \<times> world" where
  "waste_composition_endpoint c area w0 =
     (let w1 = logger INFO (Received_request area) w0
      in case get_waste_composition c area w1 of
           (Inl e, w2) \<Rightarrow> raise_500 area e w2
         | (Inr result, w2) \<Rightarrow>
             (let w3 = logger INFO (Successfully_processed_request area) w2
              in case JSONResponse_init HTTP_200_OK result of
                   Inl e \<Rightarrow> raise_500 area e w3
                 | Inr resp \<Rightarrow> (resp, w3)))"

text \<open>\<^verbatim>\<open>health_check\<close> (lines 175 to 179). The client is in scope, as the global is.\<close>

definition health_check :: "client \<Rightarrow> world \<Rightarrow> (string, string) dict \<times> world" where
  "health_check c w =
     ([(''status'', ''healthy''), (''version'', ''1.0.0'')],
      logger INFO Health_check_requested w)"

text \<open>
  The loop of lines 131 and 132 without the indices: the entries assigned in order, from a
  dictionary \<open>d\<close> on.
\<close>

definition assign_all :: "WasteComposition list \<Rightarrow> (string, real) dict \<Rightarrow> (string, real) dict" where
  "assign_all es d = fold (\<lambda>e. AList.update (composition_name e) (composition_percentage e)) es d"

section \<open>Example providers\<close>

definition fresh_world :: world where
  "fresh_world = \<lparr>logged = [], calls = []\<rparr>"

definition scripted_client :: "string \<Rightarrow> annotation list \<Rightarrow> WasteComposition list \<Rightarrow> client" where
  "scripted_client t anns entries =
     \<lparr>responses_create =
        (\<lambda>area. Inr \<lparr>output_items = [web_search_call, message [output_text t anns]]\<rparr>),
      responses_parse =
        (\<lambda>s. Inr \<lparr>output_parsed =
                     Some \<lparr>composition_dict = entries, citation_dict = map url anns\<rparr>\<rparr>)\<rparr>"

definition entry :: "string \<Rightarrow> real \<Rightarrow> WasteComposition" where
  "entry n p = \<lparr>composition_name = n, composition_percentage = p\<rparr>"

definition repeated_entries :: "WasteComposition list" where
  "repeated_entries =
     [entry ''paper'' 30, entry ''glass'' 20, entry ''paper'' 35, entry ''food'' 40]"

definition repeated_links :: "annotation list" where
  "repeated_links =
     [\<lparr>url = ''https://a.example/msw''\<rparr>, \<lparr>url = ''https://b.example/study''\<rparr>,
      \<lparr>url = ''https://a.example/msw''\<rparr>]"

definition failing_client :: client where
  "failing_client =
     \<lparr>responses_create = (\<lambda>area. Inl (ProviderError ''connection refused'')),
      responses_parse = (\<lambda>s. Inl (ProviderError ''connection refused''))\<rparr>"

definition short_client :: client where
  "short_client = scripted_client ''Paper 30%, glass 20%, paper 35%, food 40%'' repeated_links repeated_entries"

definition silent_client :: client where
  "silent_client = scripted_client ''No information available for the given zipcode'' [] []"

definition negative_client :: client where
  "negative_client =
     scripted_client ''Glass -5%, food 105%'' [] [entry ''glass'' (- 5), entry ''food'' 105]"

definition tidy_client :: client where
  "tidy_client =
     scripted_client ''Paper 60%, glass 40%'' [\<lparr>url = ''https://b.example/study''\<rparr>]
       [entry ''paper'' 60, entry ''glass'' 40]"

definition stalling_client :: client where
  "stalling_client =
     \<lparr>responses_create =
        (\<lambda>area. Inr \<lparr>output_items = [web_search_call,
                  message [output_text ''Paper 60%, glass 40%'' []]]\<rparr>),
      responses_parse = (\<lambda>s. Inl (ProviderError ''malformed response''))\<rparr>"

section \<open>The loops, without their indices\<close>

lemma fold_index: "fold (\<lambda>i. f (xs ! i)) [0..<length xs] a = fold f xs a"
proof -
  have "fold (\<lambda>i. f (xs ! i)) [0..<length xs] a = fold f (map (nth xs) [0..<length xs]) a"
    by (simp add: fold_map comp_def)
  then show ?thesis by (simp add: map_nth)
qed

lemma fold_append_one: "fold (\<lambda>x acc. acc @ [g x]) xs acc0 = acc0 @ map g xs"
  by (induction xs arbitrary: acc0) simp_all

lemma collect_citations_map: "collect_citations anns = map url anns"
  using fold_index [of "\<lambda>a acc. acc @ [url a]" anns "[]"]
  by (simp add: collect_citations_def fold_append_one)

lemma build_composition_fold: "build_composition es = assign_all es []"
  using fold_index [of "\<lambda>e. AList.update (composition_name e) (composition_percentage e)" es "[]"]
  by (simp add: build_composition_def assign_all_def)

lemma assign_all_distinct: "distinct (map fst d) \<Longrightarrow> distinct (map fst (assign_all es d))"
  unfolding assign_all_def
  by (induction es arbitrary: d) (simp_all add: distinct_update)

lemma assign_all_map_of:
  "map_of (assign_all es d) n =
     (case filter (\<lambda>e. composition_name e = n) es of
        [] \<Rightarrow> map_of d n
      | f # fs \<Rightarrow> Some (composition_percentage (last (f # fs))))"
  unfolding assign_all_def
proof (induction es arbitrary: d)
  case Nil
  then show ?case by simp
next
  case (Cons e es)
  show ?case
    by (simp add: Cons.IH update_conv' split: list.splits)
qed

lemma distinct_filter_key:
  "distinct (map fst d) \<Longrightarrow> map_of d k = Some v \<Longrightarrow> filter (\<lambda>p. fst p = k) d = [(k, v)]"
proof (induction d)
  case Nil
  then show ?case by simp
next
  case (Cons p d)
  show ?case
  proof (cases "fst p = k")
    case True
    with Cons.prems have "p = (k, v)" by (cases p) simp
    moreover from True Cons.prems(1) have "k \<notin> fst ` set d" by simp
    then have "\<forall>q \<in> set d. fst q \<noteq> k" by (metis imageI)
    then have "filter (\<lambda>p. fst p = k) d = []" by (simp add: filter_empty_conv)
    ultimately show ?thesis by simp
  next
    case False
    with Cons show ?thesis by simp
  qed
qed

lemma assign_all_fresh:
  "distinct (map composition_name es) \<Longrightarrow> set (map composition_name es) \<inter> fst ` set d = {}
   \<Longrightarrow> assign_all es d = d @ map (\<lambda>e. (composition_name e, composition_percentage e)) es"
  unfolding assign_all_def
proof (induction es arbitrary: d)
  case Nil
  then show ?case by simp
next
  case (Cons e es)
  have fresh: "composition_name e \<notin> fst ` set d" using Cons.prems(2) by auto
  have upd: "AList.update (composition_name e) (composition_percentage e) d
             = d @ [(composition_name e, composition_percentage e)]"
    using fresh by (induction d) auto
  have "set (map composition_name es) \<inter> fst ` set (d @ [(composition_name e, composition_percentage e)]) = {}"
    using Cons.prems by auto
  with Cons.IH [of "d @ [(composition_name e, composition_percentage e)]"] Cons.prems(1) upd
  show ?case by simp
qed

section \<open>What the pipeline and the handlers return\<close>

lemma fst_normalize:
  "output_parsed rf = Some p \<Longrightarrow>
   fst (normalize area t anns rf w) =
     Inr [\<lparr>output_str = t, citations = collect_citations anns,
           composition = build_composition (composition_dict p)\<rparr>]"
  by (simp add: normalize_def Let_def)

lemma fst_normalize_None:
  "output_parsed rf = None \<Longrightarrow> fst (normalize area t anns rf w) = Inl AttributeError"
  by (simp add: normalize_def Let_def)

lemma fst_pipeline_body_success:
  assumes "responses_create c area = Inr r"
    and "first_part r = Inr (output_text t anns)"
    and "responses_parse c t = Inr rf"
    and "output_parsed rf = Some p"
  shows "fst (pipeline_body c area w) =
     Inr [\<lparr>output_str = t, citations = collect_citations anns,
           composition = build_composition (composition_dict p)\<rparr>]"
  using assms by (simp add: pipeline_body_def Let_def fst_normalize)

lemma fst_pipeline_body_cases:
  "fst (pipeline_body c area w) =
     (case responses_create c area of
        Inl e \<Rightarrow> Inl e
      | Inr r \<Rightarrow>
          (case first_part r of
             Inl e \<Rightarrow> Inl e
           | Inr (refusal x) \<Rightarrow> Inl AttributeError
           | Inr (output_text t anns) \<Rightarrow>
               (case responses_parse c t of
                  Inl e \<Rightarrow> Inl e
                | Inr rf \<Rightarrow>
                    (case output_parsed rf of
                       None \<Rightarrow> Inl AttributeError
                     | Some p \<Rightarrow>
                         Inr [\<lparr>output_str = t, citations = collect_citations anns,
                               composition = build_composition (composition_dict p)\<rparr>]))))"
  by (simp add: pipeline_body_def Let_def fst_normalize fst_normalize_None
      split: sum.splits content_part.splits option.splits)

lemma fst_pipeline_body_world: "fst (pipeline_body c area w) = fst (pipeline_body c area w')"
  by (simp add: fst_pipeline_body_cases)

lemma fst_get_waste_composition:
  "fst (get_waste_composition c area w) =
     (case fst (pipeline_body c area w) of
        Inl e \<Rightarrow> Inl (ValidationError [''composition_dict''])
      | Inr rs \<Rightarrow> Inr (Payload rs))"
proof -
  obtain res w2 where run: "pipeline_body c area (logger INFO (Processing_request area) w) = (res, w2)"
    by (cases "pipeline_body c area (logger INFO (Processing_request area) w)")
  have same: "fst (pipeline_body c area w) = res"
    using run fst_pipeline_body_world [of c area w "logger INFO (Processing_request area) w"]
    by simp
  show ?thesis
    unfolding same
    by (cases res)
       (simp_all add: get_waste_composition_def Let_def run WasteCompositionResponse_init_def
         missing_fields_def)
qed

lemma fst_endpoint:
  "fst (waste_composition_endpoint c area w) =
     (case fst (get_waste_composition c area w) of
        Inl e \<Rightarrow> HTTPException 500 (Internal_server_error e)
      | Inr (Payload rs) \<Rightarrow> JSONResponse 200 rs
      | Inr (ErrorObject obj) \<Rightarrow> HTTPException 500 (Internal_server_error TypeError))"
proof -
  have world: "fst (get_waste_composition c area w') = fst (get_waste_composition c area w)" for w'
    by (simp add: fst_get_waste_composition fst_pipeline_body_world [of c area w' w])
  obtain res w2 where run: "get_waste_composition c area (logger INFO (Received_request area) w) = (res, w2)"
    by (cases "get_waste_composition c area (logger INFO (Received_request area) w)")
  have same: "fst (get_waste_composition c area w) = res"
    using run world [of "logger INFO (Received_request area) w"] by simp
  show ?thesis
  proof (cases res)
    case (Inl e)
    then show ?thesis
      by (simp add: same waste_composition_endpoint_def Let_def run raise_500_def
          HTTP_500_INTERNAL_SERVER_ERROR_def)
  next
    case (Inr v)
    then show ?thesis
      by (cases v)
         (simp_all add: same waste_composition_endpoint_def Let_def run raise_500_def
           HTTP_500_INTERNAL_SERVER_ERROR_def HTTP_200_OK_def)
  qed
qed

section \<open>The example providers, evaluated\<close>

lemma scripted_create:
  "responses_create (scripted_client t anns es) area =
     Inr \<lparr>output_items = [web_search_call, message [output_text t anns]]\<rparr>"
  by (simp add: scripted_client_def)

lemma scripted_first_part:
  "first_part \<lparr>output_items = [web_search_call, message [output_text t anns]]\<rparr> =
     Inr (output_text t anns)"
  by (simp add: first_part_def getitem_def)

lemma scripted_parse:
  "responses_parse (scripted_client t anns es) s =
     Inr \<lparr>output_parsed = Some \<lparr>composition_dict = es, citation_dict = map url anns\<rparr>\<rparr>"
  by (simp add: scripted_client_def)

lemma build_repeated:
  "build_composition repeated_entries = [(''paper'', 35), (''glass'', 20), (''food'', 40)]"
  by (simp add: build_composition_fold assign_all_def repeated_entries_def entry_def)

section \<open>The claims\<close>

text \<open>
  C1. For every area string, whatever the two provider calls do (return or raise), the
  handler of \<^verbatim>\<open>GET /waste-composition/{area}\<close> ends in one of two ways: a JSON response with
  status 200 whose body is a list of exactly one object, or an \<^verbatim>\<open>HTTPException\<close> with status
  500 and a \<^verbatim>\<open>detail\<close>. The handler is a total function of the provider's behaviour, so no
  exception of the pipeline escapes it.
\<close>

theorem endpoint_200_or_500:
  "(\<exists>rd. fst (waste_composition_endpoint c area w) = JSONResponse 200 [rd]) \<or>
   (\<exists>e. fst (waste_composition_endpoint c area w) = HTTPException 500 (Internal_server_error e))"
  by (simp add: fst_endpoint fst_get_waste_composition fst_pipeline_body_cases
      split: sum.splits content_part.splits option.splits)

text \<open>
  C2. When a category name occurs two or more times among the extracted entries, the
  composition mapping holds exactly one entry for that name, and its value is the percentage
  of the last extracted entry with that name; the earlier values are gone.
\<close>

theorem last_write_wins:
  assumes "2 \<le> length (filter (\<lambda>e. composition_name e = n) entries)"
  shows "filter (\<lambda>p. fst p = n) (build_composition entries) =
           [(n, composition_percentage (last (filter (\<lambda>e. composition_name e = n) entries)))]"
proof -
  from assms obtain f fs where fs: "filter (\<lambda>e. composition_name e = n) entries = f # fs"
    by (cases "filter (\<lambda>e. composition_name e = n) entries") auto
  have "map_of (build_composition entries) n = Some (composition_percentage (last (f # fs)))"
    by (simp add: build_composition_fold assign_all_map_of fs)
  moreover have "distinct (map fst (build_composition entries))"
    by (simp add: build_composition_fold assign_all_distinct)
  ultimately show ?thesis
    unfolding fs by (rule distinct_filter_key [rotated])
qed

theorem last_write_wins_witness:
  "2 \<le> length (filter (\<lambda>e. composition_name e = ''paper'') repeated_entries) \<and>
   filter (\<lambda>p. fst p = ''paper'') (build_composition repeated_entries) = [(''paper'', 35)]"
proof -
  have two: "2 \<le> length (filter (\<lambda>e. composition_name e = ''paper'') repeated_entries)"
    by (simp add: repeated_entries_def entry_def)
  have "composition_percentage (last (filter (\<lambda>e. composition_name e = ''paper'') repeated_entries)) = 35"
    by (simp add: repeated_entries_def entry_def)
  with last_write_wins [OF two] two show ?thesis by simp
qed

lemma normalize_last_logged:
  "output_parsed rf = Some p \<Longrightarrow>
   last (logged (snd (normalize area t anns rf w))) =
     (if off_target (sum_list (dict_values (build_composition (composition_dict p))))
      then (WARNING, Total_not_100 (sum_list (dict_values (build_composition (composition_dict p)))) area)
      else (INFO, Successfully_processed_data area))"
  by (simp add: normalize_def Let_def logger_def)

lemma snd_pipeline_body_success:
  assumes "responses_create c area = Inr r"
    and "first_part r = Inr (output_text t anns)"
    and "responses_parse c t = Inr rf"
  shows "snd (pipeline_body c area w) =
     snd (normalize area t anns rf
            (called (Parse t) (logger DEBUG (Raw_response t) (called (Create area) w))))"
  using assms by (simp add: pipeline_body_def Let_def)

lemma snd_get_waste_composition_success:
  assumes "fst (pipeline_body c area w) = Inr rs"
  shows "snd (get_waste_composition c area w) =
     snd (pipeline_body c area (logger INFO (Processing_request area) w))"
proof -
  obtain res w2 where run: "pipeline_body c area (logger INFO (Processing_request area) w) = (res, w2)"
    by (cases "pipeline_body c area (logger INFO (Processing_request area) w)")
  have "res = Inr rs"
    using run assms fst_pipeline_body_world [of c area w "logger INFO (Processing_request area) w"]
    by simp
  then show ?thesis
    by (simp add: get_waste_composition_def Let_def run)
qed

text \<open>
  C3. When both provider calls succeed, the value \<^verbatim>\<open>get_waste_composition\<close> returns is the
  single-element list holding the raw text, the citations and the composition mapping, and
  this value does not depend on the sum check: whether or not the sum of the mapping's values
  is more than 0.03 away from 100, the same object is returned. The check only decides the
  last log record, a warning when the sum is off and an info record otherwise.
\<close>

theorem sum_check_observational:
  assumes "responses_create c area = Inr r"
    and "first_part r = Inr (output_text t anns)"
    and "responses_parse c t = Inr rf"
    and "output_parsed rf = Some p"
  shows "fst (get_waste_composition c area w) =
           Inr (Payload [\<lparr>output_str = t, citations = collect_citations anns,
                          composition = build_composition (composition_dict p)\<rparr>]) \<and>
         last (logged (snd (get_waste_composition c area w))) =
           (if off_target (sum_list (dict_values (build_composition (composition_dict p))))
            then (WARNING,
                  Total_not_100 (sum_list (dict_values (build_composition (composition_dict p)))) area)
            else (INFO, Successfully_processed_data area))"
proof -
  have body: "fst (pipeline_body c area w) =
      Inr [\<lparr>output_str = t, citations = collect_citations anns,
            composition = build_composition (composition_dict p)\<rparr>]"
    using assms by (rule fst_pipeline_body_success)
  have "snd (get_waste_composition c area w) =
      snd (normalize area t anns rf
             (called (Parse t) (logger DEBUG (Raw_response t)
                (called (Create area) (logger INFO (Processing_request area) w)))))"
    using snd_get_waste_composition_success [OF body]
      snd_pipeline_body_success [OF assms(1-3)] by simp
  then show ?thesis
    by (simp add: fst_get_waste_composition body normalize_last_logged [OF assms(4)])
qed

theorem sum_check_observational_witness:
  "fst (get_waste_composition short_client ''90210'' fresh_world) =
     Inr (Payload [\<lparr>output_str = ''Paper 30%, glass 20%, paper 35%, food 40%'',
                    citations = [''https://a.example/msw'', ''https://b.example/study'',
                                 ''https://a.example/msw''],
                    composition = [(''paper'', 35), (''glass'', 20), (''food'', 40)]\<rparr>]) \<and>
   last (logged (snd (get_waste_composition short_client ''90210'' fresh_world))) =
     (WARNING, Total_not_100 95 ''90210'')"
proof -
  have created: "responses_create short_client ''90210'' =
      Inr \<lparr>output_items = [web_search_call,
             message [output_text ''Paper 30%, glass 20%, paper 35%, food 40%'' repeated_links]]\<rparr>"
    by (simp add: short_client_def scripted_create)
  have parsed: "responses_parse short_client ''Paper 30%, glass 20%, paper 35%, food 40%'' =
      Inr \<lparr>output_parsed = Some \<lparr>composition_dict = repeated_entries,
                                   citation_dict = map url repeated_links\<rparr>\<rparr>"
    by (simp add: short_client_def scripted_parse)
  have links: "collect_citations repeated_links =
      [''https://a.example/msw'', ''https://b.example/study'', ''https://a.example/msw'']"
    by (simp add: collect_citations_map repeated_links_def)
  from sum_check_observational [OF created scripted_first_part parsed, of _ fresh_world]
  show ?thesis
    by (simp add: links build_repeated dict_values_def off_target_def)
qed

lemma failing_create:
  "responses_create failing_client area = Inl (ProviderError ''connection refused'')"
  by (simp add: failing_client_def)

lemma assign_all_member:
  assumes "distinct (map fst d)" and "(k, v) \<in> set (assign_all es d)"
  shows "(k, v) \<in> set d \<or>
         (\<exists>e \<in> set es. composition_name e = k \<and> composition_percentage e = v)"
proof -
  have "distinct (map fst (assign_all es d))"
    using assms(1) by (rule assign_all_distinct)
  with assms(2) have look: "map_of (assign_all es d) k = Some v"
    by simp
  show ?thesis
  proof (cases "filter (\<lambda>e. composition_name e = k) es")
    case Nil
    with look have "map_of d k = Some v"
      by (simp add: assign_all_map_of)
    then show ?thesis by (auto dest: map_of_SomeD)
  next
    case (Cons f fs)
    with look have v: "v = composition_percentage (last (f # fs))"
      by (simp add: assign_all_map_of)
    have "last (f # fs) \<in> set (filter (\<lambda>e. composition_name e = k) es)"
      unfolding Cons by (rule last_in_set) simp
    then have "last (f # fs) \<in> set es \<and> composition_name (last (f # fs)) = k"
      by simp
    with v show ?thesis by blast
  qed
qed

lemma build_composition_member:
  "(k, v) \<in> set (build_composition entries) \<Longrightarrow>
   \<exists>e \<in> set entries. composition_name e = k \<and> composition_percentage e = v"
  using assign_all_member [of "[]" k v entries] by (simp add: build_composition_fold)

text \<open>
  C4. Whenever the body of \<^verbatim>\<open>get_waste_composition\<close> raises, the constructor call of the
  \<^verbatim>\<open>except\<close> branch raises a validation error for the absent required field
  \<^verbatim>\<open>composition_dict\<close>, so the function raises in turn; and in no case does it return a
  structured error object.
\<close>

theorem except_branch_raises:
  "(\<forall>e. fst (pipeline_body c area w') = Inl e \<longrightarrow>
        fst (get_waste_composition c area w) = Inl (ValidationError [''composition_dict''])) \<and>
   (\<forall>obj. fst (get_waste_composition c area w) \<noteq> Inr (ErrorObject obj))"
  by (simp add: fst_get_waste_composition fst_pipeline_body_world [of c area w' w]
      split: sum.splits)

theorem except_branch_raises_witness:
  "fst (pipeline_body failing_client ''90210'' fresh_world) = Inl (ProviderError ''connection refused'') \<and>
   fst (get_waste_composition failing_client ''90210'' fresh_world) =
     Inl (ValidationError [''composition_dict''])"
proof -
  have raised: "fst (pipeline_body failing_client ''90210'' fresh_world) =
      Inl (ProviderError ''connection refused'')"
    by (simp add: fst_pipeline_body_cases failing_create)
  with except_branch_raises [of failing_client "''90210''" fresh_world fresh_world]
  show ?thesis by simp
qed

text \<open>
  C6. Whenever the pipeline returns a result, its citations are the URLs of the annotations
  of the retrieval call, one for each annotation and in the same order; repeated URLs are
  kept.
\<close>

theorem citations_in_order:
  assumes "responses_create c area = Inr r"
    and "first_part r = Inr (output_text t anns)"
    and "fst (get_waste_composition c area w) = Inr (Payload [rd])"
  shows "citations rd = map url anns \<and> length (citations rd) = length anns"
  using assms
  by (auto simp add: fst_get_waste_composition fst_pipeline_body_cases collect_citations_map
      split: sum.splits option.splits)

theorem citations_in_order_witness:
  "citations \<lparr>output_str = ''Paper 30%, glass 20%, paper 35%, food 40%'',
              citations = [''https://a.example/msw'', ''https://b.example/study'',
                           ''https://a.example/msw''],
              composition = [(''paper'', 35), (''glass'', 20), (''food'', 40)]\<rparr>
     = map url repeated_links \<and>
   fst (get_waste_composition short_client ''90210'' fresh_world) =
     Inr (Payload [\<lparr>output_str = ''Paper 30%, glass 20%, paper 35%, food 40%'',
              citations = [''https://a.example/msw'', ''https://b.example/study'',
                           ''https://a.example/msw''],
              composition = [(''paper'', 35), (''glass'', 20), (''food'', 40)]\<rparr>])"
proof -
  have created: "responses_create short_client ''90210'' =
      Inr \<lparr>output_items = [web_search_call,
             message [output_text ''Paper 30%, glass 20%, paper 35%, food 40%'' repeated_links]]\<rparr>"
    by (simp add: short_client_def scripted_create)
  have run: "fst (get_waste_composition short_client ''90210'' fresh_world) =
     Inr (Payload [\<lparr>output_str = ''Paper 30%, glass 20%, paper 35%, food 40%'',
              citations = [''https://a.example/msw'', ''https://b.example/study'',
                           ''https://a.example/msw''],
              composition = [(''paper'', 35), (''glass'', 20), (''food'', 40)]\<rparr>])"
    by (simp add: fst_get_waste_composition fst_pipeline_body_cases short_client_def
        scripted_create scripted_first_part scripted_parse collect_citations_map
        repeated_links_def build_repeated)
  from citations_in_order [OF created scripted_first_part run] run
  show ?thesis by simp
qed

text \<open>
  C9. \<^verbatim>\<open>health_check\<close> returns the fixed payload with status \<^verbatim>\<open>healthy\<close> and version
  \<^verbatim>\<open>1.0.0\<close>, whatever the provider client is, and makes no call to the provider.
\<close>

theorem health_check_fixed:
  "fst (health_check c w) = [(''status'', ''healthy''), (''version'', ''1.0.0'')] \<and>
   calls (snd (health_check c w)) = calls w"
  by (simp add: health_check_def logger_def)

text \<open>
  C10. Every value of the composition mapping is, unchanged, the percentage of an extracted
  entry with that name: nothing is scaled, rounded or clamped.
\<close>

theorem percentages_verbatim:
  "\<forall>(k, v) \<in> set (build_composition entries).
     \<exists>e \<in> set entries. composition_name e = k \<and> composition_percentage e = v"
  using build_composition_member by blast

theorem percentages_verbatim_witness:
  "(''paper'', 35) \<in> set (build_composition repeated_entries) \<and>
   (\<exists>e \<in> set repeated_entries. composition_name e = ''paper'' \<and> composition_percentage e = 35)"
proof -
  have member: "(''paper'', 35) \<in> set (build_composition repeated_entries)"
    by (simp add: build_repeated)
  from percentages_verbatim [of repeated_entries, THEN bspec, OF member] member
  show ?thesis by simp
qed

lemma build_composition_distinct:
  "distinct (map composition_name entries) \<Longrightarrow>
   build_composition entries =
     map (\<lambda>e. (composition_name e, composition_percentage e)) entries"
  using assign_all_fresh [of entries "[]"] by (simp add: build_composition_fold)

lemma build_composition_nonneg:
  assumes "\<forall>e \<in> set entries. 0 \<le> composition_percentage e"
  shows "\<forall>v \<in> set (dict_values (build_composition entries)). 0 \<le> v"
proof
  fix v assume "v \<in> set (dict_values (build_composition entries))"
  then obtain k where "(k, v) \<in> set (build_composition entries)"
    by (auto simp add: dict_values_def)
  then obtain e where "e \<in> set entries" and "composition_percentage e = v"
    using build_composition_member by blast
  with assms show "0 \<le> v" by auto
qed

lemma build_composition_sum:
  "distinct (map composition_name entries) \<Longrightarrow>
   sum_list (dict_values (build_composition entries)) =
     sum_list (map composition_percentage entries)"
  by (simp add: build_composition_distinct dict_values_def comp_def)

text \<open>
  C5, as the claim states it, fails: the percentages of the extraction are not checked, so
  a negative one reaches the returned mapping. Here the mapping even sums to 100.
\<close>

theorem negative_value_counterexample:
  "fst (get_waste_composition negative_client ''90210'' fresh_world) =
     Inr (Payload [\<lparr>output_str = ''Glass -5%, food 105%'', citations = [],
                    composition = [(''glass'', - 5), (''food'', 105)]\<rparr>]) \<and>
   \<not> 0 \<le> snd (hd (composition \<lparr>output_str = ''Glass -5%, food 105%'', citations = [],
                    composition = [(''glass'', - 5), (''food'', 105)]\<rparr>)) \<and>
   \<not> off_target (sum_list (dict_values [(''glass'', - 5), (''food'', 105)]))"
  by (simp add: fst_get_waste_composition fst_pipeline_body_cases negative_client_def
      scripted_create scripted_first_part scripted_parse collect_citations_map
      build_composition_fold assign_all_def entry_def dict_values_def off_target_def)

text \<open>
  C5, amended. When both provider calls succeed, the returned mapping is the one built from
  the extracted entries; its values are all non-negative when every extracted percentage is
  non-negative; and when the extracted names are pairwise distinct and the extracted
  percentages sum to within 0.03 of 100, the values of the mapping sum to within 0.03 of 100.
\<close>

theorem values_follow_extraction:
  assumes "responses_create c area = Inr r"
    and "first_part r = Inr (output_text t anns)"
    and "responses_parse c t = Inr rf"
    and "output_parsed rf = Some p"
  shows "fst (get_waste_composition c area w) =
           Inr (Payload [\<lparr>output_str = t, citations = collect_citations anns,
                          composition = build_composition (composition_dict p)\<rparr>]) \<and>
         ((\<forall>e \<in> set (composition_dict p). 0 \<le> composition_percentage e) \<longrightarrow>
          (\<forall>v \<in> set (dict_values (build_composition (composition_dict p))). 0 \<le> v)) \<and>
         (distinct (map composition_name (composition_dict p)) \<and>
          \<not> off_target (sum_list (map composition_percentage (composition_dict p))) \<longrightarrow>
          \<not> off_target (sum_list (dict_values (build_composition (composition_dict p)))))"
proof -
  have "fst (pipeline_body c area w) =
      Inr [\<lparr>output_str = t, citations = collect_citations anns,
            composition = build_composition (composition_dict p)\<rparr>]"
    using assms by (rule fst_pipeline_body_success)
  then show ?thesis
    by (simp add: fst_get_waste_composition build_composition_nonneg build_composition_sum)
qed

theorem values_follow_extraction_witness:
  "fst (get_waste_composition tidy_client ''90210'' fresh_world) =
     Inr (Payload [\<lparr>output_str = ''Paper 60%, glass 40%'',
                    citations = [''https://b.example/study''],
                    composition = [(''paper'', 60), (''glass'', 40)]\<rparr>]) \<and>
   list_all (\<lambda>v. 0 \<le> v) (dict_values [(''paper'', 60), (''glass'', 40 :: real)]) \<and>
   \<not> off_target (sum_list (dict_values [(''paper'', 60), (''glass'', 40)]))"
proof -
  let ?es = "[entry ''paper'' 60, entry ''glass'' 40]"
  let ?links = "[\<lparr>url = ''https://b.example/study''\<rparr>]"
  have created: "responses_create tidy_client ''90210'' =
      Inr \<lparr>output_items = [web_search_call, message [output_text ''Paper 60%, glass 40%'' ?links]]\<rparr>"
    by (simp add: tidy_client_def scripted_create)
  have parsed: "responses_parse tidy_client ''Paper 60%, glass 40%'' =
      Inr \<lparr>output_parsed = Some \<lparr>composition_dict = ?es, citation_dict = map url ?links\<rparr>\<rparr>"
    by (simp add: tidy_client_def scripted_parse)
  have built: "build_composition ?es = [(''paper'', 60), (''glass'', 40)]"
    by (simp add: build_composition_fold assign_all_def entry_def)
  have nonneg: "\<forall>e \<in> set ?es. 0 \<le> composition_percentage e"
    by (simp add: entry_def)
  have names: "distinct (map composition_name ?es)"
    by (simp add: entry_def)
  have near: "\<not> off_target (sum_list (map composition_percentage ?es))"
    by (simp add: entry_def off_target_def)
  from values_follow_extraction [OF created scripted_first_part parsed, of _ fresh_world]
    nonneg names near
  show ?thesis
    by (simp add: built collect_citations_map list_all_iff)
qed

text \<open>
  C7. When the retrieval call returns no annotation and the extraction call returns an
  empty composition list, the pipeline returns the single-element list holding the raw text,
  no citation and the empty mapping; the sum check fails (the sum is 0) and leaves a warning in
  the log, with no error record; and the handler answers with status 200 and that same list.
\<close>

theorem empty_result_still_200:
  assumes "responses_create c area = Inr r"
    and "first_part r = Inr (output_text t [])"
    and "responses_parse c t = Inr rf"
    and "output_parsed rf = Some p"
    and "composition_dict p = []"
  shows "get_waste_composition c area w =
           (Inr (Payload [\<lparr>output_str = t, citations = [], composition = []\<rparr>]),
            w\<lparr>logged := logged w @
                  [(INFO, Processing_request area), (DEBUG, Raw_response t),
                   (WARNING, Total_not_100 0 area)],
              calls := calls w @ [Create area, Parse t]\<rparr>) \<and>
         off_target (sum_list (dict_values (build_composition (composition_dict p)))) \<and>
         waste_composition_endpoint c area w =
           (JSONResponse 200 [\<lparr>output_str = t, citations = [], composition = []\<rparr>],
            w\<lparr>logged := logged w @
                  [(INFO, Received_request area), (INFO, Processing_request area),
                   (DEBUG, Raw_response t), (WARNING, Total_not_100 0 area),
                   (INFO, Successfully_processed_request area)],
              calls := calls w @ [Create area, Parse t]\<rparr>)"
proof -
  have built: "build_composition [] = []"
    by (simp add: build_composition_def)
  have off: "off_target 0"
    by (simp add: off_target_def)
  have norm: "normalize area t [] rf w' =
      (Inr [\<lparr>output_str = t, citations = [], composition = []\<rparr>],
       logger WARNING (Total_not_100 0 area) w')" for w'
    using assms(4,5)
    by (simp add: normalize_def Let_def collect_citations_def built dict_values_def off)
  have body: "pipeline_body c area w' =
      (Inr [\<lparr>output_str = t, citations = [], composition = []\<rparr>],
       logger WARNING (Total_not_100 0 area)
         (called (Parse t) (logger DEBUG (Raw_response t) (called (Create area) w'))))" for w'
    using assms(1-3) by (simp add: pipeline_body_def Let_def norm)
  have pipe: "get_waste_composition c area w' =
      (Inr (Payload [\<lparr>output_str = t, citations = [], composition = []\<rparr>]),
       logger WARNING (Total_not_100 0 area)
         (called (Parse t) (logger DEBUG (Raw_response t)
            (called (Create area) (logger INFO (Processing_request area) w')))))" for w'
    by (simp add: get_waste_composition_def Let_def body)
  have "get_waste_composition c area w =
           (Inr (Payload [\<lparr>output_str = t, citations = [], composition = []\<rparr>]),
            w\<lparr>logged := logged w @
                  [(INFO, Processing_request area), (DEBUG, Raw_response t),
                   (WARNING, Total_not_100 0 area)],
              calls := calls w @ [Create area, Parse t]\<rparr>)"
    by (simp add: pipe logger_def called_def)
  moreover have "off_target (sum_list (dict_values (build_composition (composition_dict p))))"
    by (simp add: assms(5) built dict_values_def off)
  moreover have "waste_composition_endpoint c area w =
           (JSONResponse 200 [\<lparr>output_str = t, citations = [], composition = []\<rparr>],
            w\<lparr>logged := logged w @
                  [(INFO, Received_request area), (INFO, Processing_request area),
                   (DEBUG, Raw_response t), (WARNING, Total_not_100 0 area),
                   (INFO, Successfully_processed_request area)],
              calls := calls w @ [Create area, Parse t]\<rparr>)"
    by (simp add: waste_composition_endpoint_def Let_def pipe HTTP_200_OK_def logger_def called_def)
  ultimately show ?thesis by simp
qed

theorem empty_result_still_200_witness:
  "waste_composition_endpoint silent_client ''not-a-zip'' fresh_world =
     (JSONResponse 200 [\<lparr>output_str = ''No information available for the given zipcode'',
                          citations = [], composition = []\<rparr>],
      \<lparr>logged = [(INFO, Received_request ''not-a-zip''), (INFO, Processing_request ''not-a-zip''),
                 (DEBUG, Raw_response ''No information available for the given zipcode''),
                 (WARNING, Total_not_100 0 ''not-a-zip''),
                 (INFO, Successfully_processed_request ''not-a-zip'')],
        calls = [Create ''not-a-zip'', Parse ''No information available for the given zipcode'']\<rparr>)"
proof -
  have created: "responses_create silent_client ''not-a-zip'' =
      Inr \<lparr>output_items = [web_search_call,
             message [output_text ''No information available for the given zipcode'' []]]\<rparr>"
    by (simp add: silent_client_def scripted_create)
  have parsed: "responses_parse silent_client ''No information available for the given zipcode'' =
      Inr \<lparr>output_parsed = Some \<lparr>composition_dict = [], citation_dict = map url []\<rparr>\<rparr>"
    by (simp add: silent_client_def scripted_parse)
  from empty_result_still_200 [OF created scripted_first_part parsed, of _ fresh_world]
  show ?thesis
    by (simp add: fresh_world_def)
qed

text \<open>
  C8, as the claim states it, fails: an error of the provider does not leave the pipeline
  as it was raised and is not caught by the handler alone. The \<^verbatim>\<open>except\<close> branch of
  \<^verbatim>\<open>get_waste_composition\<close> catches it and logs it, and what the pipeline raises is another
  exception.
\<close>

theorem provider_error_caught_in_pipeline_counterexample:
  "responses_create failing_client ''90210'' = Inl (ProviderError ''connection refused'') \<and>
   fst (get_waste_composition failing_client ''90210'' fresh_world) \<noteq>
     Inl (ProviderError ''connection refused'') \<and>
   (ERROR, Error_processing ''90210'' (ProviderError ''connection refused''))
     \<in> set (logged (snd (get_waste_composition failing_client ''90210'' fresh_world)))"
  by (simp add: failing_create get_waste_composition_def pipeline_body_def Let_def
      WasteCompositionResponse_init_def missing_fields_def logger_def called_def fresh_world_def)

text \<open>
  C8, amended. When the retrieval call or the extraction call raises an error, the
  \<^verbatim>\<open>except\<close> branch of the pipeline catches and logs it, the request ends with an
  \<^verbatim>\<open>HTTPException\<close> of status 500 carrying a detail, so no result object is returned, and
  the provider is not called again: one retrieval call, and at most one extraction call.
\<close>

theorem provider_error_gives_500:
  "(responses_create c area = Inl e \<longrightarrow>
      (ERROR, Error_processing area e) \<in> set (logged (snd (waste_composition_endpoint c area w))) \<and>
      (\<exists>e'. fst (waste_composition_endpoint c area w) = HTTPException 500 (Internal_server_error e')) \<and>
      calls (snd (waste_composition_endpoint c area w)) = calls w @ [Create area]) \<and>
   (responses_create c area = Inr r \<and> first_part r = Inr (output_text t anns) \<and>
    responses_parse c t = Inl e \<longrightarrow>
      (ERROR, Error_processing area e) \<in> set (logged (snd (waste_composition_endpoint c area w))) \<and>
      (\<exists>e'. fst (waste_composition_endpoint c area w) = HTTPException 500 (Internal_server_error e')) \<and>
      calls (snd (waste_composition_endpoint c area w)) = calls w @ [Create area, Parse t])"
  by (simp add: waste_composition_endpoint_def get_waste_composition_def pipeline_body_def Let_def
      WasteCompositionResponse_init_def missing_fields_def raise_500_def logger_def called_def
      HTTP_500_INTERNAL_SERVER_ERROR_def)

theorem provider_error_gives_500_witness:
  "(responses_create failing_client ''90210'' = Inl (ProviderError ''connection refused'') \<and>
    (ERROR, Error_processing ''90210'' (ProviderError ''connection refused''))
      \<in> set (logged (snd (waste_composition_endpoint failing_client ''90210'' fresh_world))) \<and>
    (\<exists>e'. fst (waste_composition_endpoint failing_client ''90210'' fresh_world) =
       HTTPException 500 (Internal_server_error e')) \<and>
    calls (snd (waste_composition_endpoint failing_client ''90210'' fresh_world)) =
      [Create ''90210'']) \<and>
   (responses_parse stalling_client ''Paper 60%, glass 40%'' =
      Inl (ProviderError ''malformed response'') \<and>
    (ERROR, Error_processing ''90210'' (ProviderError ''malformed response''))
      \<in> set (logged (snd (waste_composition_endpoint stalling_client ''90210'' fresh_world))) \<and>
    (\<exists>e'. fst (waste_composition_endpoint stalling_client ''90210'' fresh_world) =
       HTTPException 500 (Internal_server_error e')) \<and>
    calls (snd (waste_composition_endpoint stalling_client ''90210'' fresh_world)) =
      [Create ''90210'', Parse ''Paper 60%, glass 40%''])"
proof -
  have created: "responses_create stalling_client ''90210'' =
      Inr \<lparr>output_items = [web_search_call,
             message [output_text ''Paper 60%, glass 40%'' []]]\<rparr>"
    by (simp add: stalling_client_def)
  have stalled: "responses_parse stalling_client ''Paper 60%, glass 40%'' =
      Inl (ProviderError ''malformed response'')"
    by (simp add: stalling_client_def)
  have first: "responses_create failing_client ''90210'' = Inl (ProviderError ''connection refused'') \<and>
    (ERROR, Error_processing ''90210'' (ProviderError ''connection refused''))
      \<in> set (logged (snd (waste_composition_endpoint failing_client ''90210'' fresh_world))) \<and>
    (\<exists>e'. fst (waste_composition_endpoint failing_client ''90210'' fresh_world) =
       HTTPException 500 (Internal_server_error e')) \<and>
    calls (snd (waste_composition_endpoint failing_client ''90210'' fresh_world)) =
      [Create ''90210'']"
    using provider_error_gives_500
      [of failing_client "''90210''" "ProviderError ''connection refused''" fresh_world]
    by (simp add: failing_create fresh_world_def)
  have second: "responses_parse stalling_client ''Paper 60%, glass 40%'' =
      Inl (ProviderError ''malformed response'') \<and>
    (ERROR, Error_processing ''90210'' (ProviderError ''malformed response''))
      \<in> set (logged (snd (waste_composition_endpoint stalling_client ''90210'' fresh_world))) \<and>
    (\<exists>e'. fst (waste_composition_endpoint stalling_client ''90210'' fresh_world) =
       HTTPException 500 (Internal_server_error e')) \<and>
    calls (snd (waste_composition_endpoint stalling_client ''90210'' fresh_world)) =
      [Create ''90210'', Parse ''Paper 60%, glass 40%'']"
    using provider_error_gives_500
      [of stalling_client "''90210''" "ProviderError ''malformed response''" fresh_world
          "\<lparr>output_items = [web_search_call, message [output_text ''Paper 60%, glass 40%'' []]]\<rparr>"
          "''Paper 60%, glass 40%''" "[]"]
      created stalled scripted_first_part [of "''Paper 60%, glass 40%''" "[]"]
    by (simp add: fresh_world_def)
  from first second show ?thesis by simp
qed

end
